theory Spec2Isabelle
  imports Main "HOL-Library.Sublist"
begin

chapter \<open>The program\<close>

section \<open>Python values, exceptions and messages\<close>

text \<open>
  The program passes JSON-like values around: tool inputs, tool results, content blocks.
  A Python \<^verbatim>\<open>dict\<close> literal is an association list in the order it is written,
  \<^verbatim>\<open>d.get(k)\<close> is \<open>map_of d k\<close>.
\<close>

datatype json =
    JNull
  | JBool bool
  | JInt int
  | JStr string
  | JList "json list"
  | JObj "(string \<times> json) list"

text \<open>The exceptions the modelled code raises; each carries what \<^verbatim>\<open>str(e)\<close> prints.\<close>

datatype exn =
    AttributeError string
  | KeyError string
  | NameError string
  | TypeError string
  | ValueError string
  | OSError string
  | Exception string

definition quote :: string where
  "quote = [CHR 0x27]"

definition newline :: string where
  "newline = [CHR 0x0A]"

fun str_exn :: "exn \<Rightarrow> string" where
  "str_exn (AttributeError m) = m"
| "str_exn (KeyError k) = quote @ k @ quote"
| "str_exn (NameError m) = m"
| "str_exn (TypeError m) = m"
| "str_exn (ValueError m) = m"
| "str_exn (OSError m) = m"
| "str_exn (Exception m) = m"

text \<open>
  A message is the dict \<^verbatim>\<open>{"role": ..., "content": ...}\<close>; the content is a string
  (\<open>JStr\<close>) or a list of content blocks (\<open>JList\<close>).
\<close>

record message =
  role :: string
  content :: json

section \<open>Alternation repair\<close>

text \<open>
  \<^verbatim>\<open>ChatManager.ensure_alternating_roles\<close> and \<^verbatim>\<open>ClaudeClient.ensure_alternating_roles\<close>
  have the same body. The loop carries \<^verbatim>\<open>alternating_messages\<close> and \<^verbatim>\<open>last_role\<close>
  (\<^verbatim>\<open>None\<close> at the start).
\<close>

definition placeholder :: message where
  "placeholder = \<lparr>role = ''assistant'', content = JStr ''Continuing the conversation...''\<rparr>"

fun ear_loop :: "message list \<Rightarrow> string option \<Rightarrow> message list \<Rightarrow> message list" where
  "ear_loop alternating_messages last_role [] = alternating_messages"
| "ear_loop alternating_messages last_role (m # ms) =
     (if Some (role m) \<noteq> last_role then
        ear_loop (alternating_messages @ [m]) (Some (role m)) ms
      else if role m = ''user'' then
        ear_loop (alternating_messages @ [placeholder, m]) (Some ''user'') ms
      else
        ear_loop alternating_messages last_role ms)"

definition ensure_alternating_roles :: "message list \<Rightarrow> message list" where
  "ensure_alternating_roles messages = ear_loop [] None messages"

text \<open>No two neighbours of a list of roles are equal.\<close>

fun alternates :: "string list \<Rightarrow> bool" where
  "alternates [] = True"
| "alternates [r] = True"
| "alternates (r # r' # rs) = (r \<noteq> r' \<and> alternates (r' # rs))"

text \<open>
  \<open>inserted_only xs ys\<close>: \<open>ys\<close> is \<open>xs\<close> with placeholder messages inserted, nothing
  deleted and nothing reordered.
\<close>

inductive inserted_only :: "message list \<Rightarrow> message list \<Rightarrow> bool" where
  io_Nil: "inserted_only [] []"
| io_keep: "inserted_only xs ys \<Longrightarrow> inserted_only (x # xs) (x # ys)"
| io_ins: "inserted_only xs ys \<Longrightarrow> inserted_only xs (placeholder # ys)"

text \<open>
  What the repair omits: a message that is not a user message and has the role of the
  message right before it in the input.
\<close>

fun collapse_repeats :: "string option \<Rightarrow> message list \<Rightarrow> message list" where
  "collapse_repeats prev [] = []"
| "collapse_repeats prev (m # ms) =
     (if Some (role m) = prev \<and> role m \<noteq> ''user'' then collapse_repeats prev ms
      else m # collapse_repeats (Some (role m)) ms)"

section \<open>Python helpers\<close>

text \<open>
  \<^verbatim>\<open>kw in text\<close> on strings is \<open>sublist kw text\<close> and \<^verbatim>\<open>s.startswith(p)\<close> is
  \<open>prefix p s\<close> (both from the library, both executable). \<^verbatim>\<open>str.lower\<close> is modelled on
  ASCII letters.
\<close>

definition lower_char :: "char \<Rightarrow> char" where
  "lower_char c =
     (case map_of (zip ''ABCDEFGHIJKLMNOPQRSTUVWXYZ'' ''abcdefghijklmnopqrstuvwxyz'') c of
        Some l \<Rightarrow> l
      | None \<Rightarrow> c)"

definition lower :: "string \<Rightarrow> string" where
  "lower s = map lower_char s"

fun str_nat :: "nat \<Rightarrow> string" where
  "str_nat n =
     (if n < 10 then [''0123456789'' ! n] else str_nat (n div 10) @ [''0123456789'' ! (n mod 10)])"

declare str_nat.simps [simp del]

definition str_int :: "int \<Rightarrow> string" where
  "str_int i = (if i < 0 then ''-'' @ str_nat (nat (- i)) else str_nat (nat i))"

fun type_name :: "json \<Rightarrow> string" where
  "type_name JNull = ''NoneType''"
| "type_name (JBool b) = ''bool''"
| "type_name (JInt i) = ''int''"
| "type_name (JStr s) = ''str''"
| "type_name (JList xs) = ''list''"
| "type_name (JObj d) = ''dict''"

text \<open>Truth value of a Python object, as \<^verbatim>\<open>if x\<close> and \<^verbatim>\<open>any\<close> read it.\<close>

fun truthy :: "json \<Rightarrow> bool" where
  "truthy JNull = False"
| "truthy (JBool b) = b"
| "truthy (JInt i) = (i \<noteq> 0)"
| "truthy (JStr s) = (s \<noteq> [])"
| "truthy (JList xs) = (xs \<noteq> [])"
| "truthy (JObj d) = (d \<noteq> [])"

text \<open>\<^verbatim>\<open>x.get(k, default)\<close>: only a dict has the method.\<close>

fun py_get :: "json \<Rightarrow> string \<Rightarrow> json \<Rightarrow> exn + json" where
  "py_get (JObj d) k dflt = Inr (case map_of d k of None \<Rightarrow> dflt | Some v \<Rightarrow> v)"
| "py_get x k dflt =
     Inl (AttributeError (quote @ type_name x @ quote @ '' object has no attribute '' @ quote @ ''get'' @ quote))"

text \<open>\<^verbatim>\<open>x[k]\<close> with a string key \<open>k\<close>.\<close>

fun py_getitem :: "json \<Rightarrow> string \<Rightarrow> exn + json" where
  "py_getitem (JObj d) k = (case map_of d k of None \<Rightarrow> Inl (KeyError k) | Some v \<Rightarrow> Inr v)"
| "py_getitem (JStr s) k = Inl (TypeError ''string indices must be integers'')"
| "py_getitem (JList xs) k = Inl (TypeError ''list indices must be integers or slices, not str'')"
| "py_getitem x k = Inl (TypeError (quote @ type_name x @ quote @ '' object is not subscriptable''))"

text \<open>\<^verbatim>\<open>k in x\<close> with a string \<open>k\<close>: substring, list membership, dict key.\<close>

fun py_in :: "string \<Rightarrow> json \<Rightarrow> exn + bool" where
  "py_in k (JStr s) = Inr (sublist k s)"
| "py_in k (JList xs) = Inr (JStr k \<in> set xs)"
| "py_in k (JObj d) = Inr (k \<in> set (map fst d))"
| "py_in k x = Inl (TypeError (''argument of type '' @ quote @ type_name x @ quote @ '' is not iterable''))"

text \<open>\<^verbatim>\<open>for x in v\<close>: the elements of a list, the keys of a dict, the characters of a string.\<close>

fun py_iter :: "json \<Rightarrow> exn + json list" where
  "py_iter (JList xs) = Inr xs"
| "py_iter (JObj d) = Inr (map (\<lambda>(k, v). JStr k) d)"
| "py_iter (JStr s) = Inr (map (\<lambda>c. JStr [c]) s)"
| "py_iter x = Inl (TypeError (quote @ type_name x @ quote @ '' object is not iterable''))"

text \<open>\<^verbatim>\<open>posixpath.join(a, b)\<close>.\<close>

definition path_join :: "string \<Rightarrow> string \<Rightarrow> string" where
  "path_join a b =
     (if prefix ''/'' b then b
      else if a = [] \<or> last a = CHR ''/'' then a @ b
      else a @ ''/'' @ b)"

section \<open>Conversation (chat/conversation.py)\<close>

record conversation =
  history :: "message list"
  conversation_file_contents :: "string \<rightharpoonup> string"

definition Conversation_init :: conversation where
  "Conversation_init = \<lparr>history = [], conversation_file_contents = Map.empty\<rparr>"

definition add_message :: "string \<Rightarrow> json \<Rightarrow> conversation \<Rightarrow> conversation" where
  "add_message r c conv = conv\<lparr>history := history conv @ [\<lparr>role = r, content = c\<rparr>]\<rparr>"

definition Conversation_reset :: "conversation \<Rightarrow> conversation" where
  "Conversation_reset conv = conv\<lparr>history := [], conversation_file_contents := Map.empty\<rparr>"

definition context_markers :: "string list" where
  "context_markers =
     [''File contents updated in system prompt'',
      ''File created and added to system prompt'',
      ''has been read and stored in the system prompt'']"

text \<open>
  \<^verbatim>\<open>any(keyword in x for keyword in [...])\<close>: the generator stops at the first hit, and
  a failing \<^verbatim>\<open>in\<close> raises.
\<close>

fun any_keyword_in :: "json \<Rightarrow> string list \<Rightarrow> exn + bool" where
  "any_keyword_in x [] = Inr False"
| "any_keyword_in x (keyword # keywords) =
     (case py_in keyword x of
        Inl e \<Rightarrow> Inl e
      | Inr True \<Rightarrow> Inr True
      | Inr False \<Rightarrow> any_keyword_in x keywords)"

text \<open>
  The condition of the list comprehension of \<^verbatim>\<open>filter_history\<close>:
  \<^verbatim>\<open>content.get('type') != 'tool_result' or (content.get('type') == 'tool_result' and
  not any(keyword in content.get('output', '') for keyword in [...]))\<close>.
\<close>

definition keep_block :: "json \<Rightarrow> exn + bool" where
  "keep_block block =
     (case py_get block ''type'' JNull of
        Inl e \<Rightarrow> Inl e
      | Inr t \<Rightarrow>
          if t \<noteq> JStr ''tool_result'' then Inr True
          else (case py_get block ''output'' (JStr '''') of
                  Inl e \<Rightarrow> Inl e
                | Inr output \<Rightarrow>
                    (case any_keyword_in output context_markers of
                       Inl e \<Rightarrow> Inl e
                     | Inr found \<Rightarrow> Inr (\<not> found))))"

fun filter_content :: "json list \<Rightarrow> exn + json list" where
  "filter_content [] = Inr []"
| "filter_content (block # blocks) =
     (case keep_block block of
        Inl e \<Rightarrow> Inl e
      | Inr keep \<Rightarrow>
          (case filter_content blocks of
             Inl e \<Rightarrow> Inl e
           | Inr rest \<Rightarrow> Inr (if keep then block # rest else rest)))"

fun filter_history_loop :: "message list \<Rightarrow> message list \<Rightarrow> exn + message list" where
  "filter_history_loop filtered_history [] = Inr filtered_history"
| "filter_history_loop filtered_history (m # ms) =
     (case content m of
        JList blocks \<Rightarrow>
          (case filter_content blocks of
             Inl e \<Rightarrow> Inl e
           | Inr filtered_content \<Rightarrow>
               if filtered_content \<noteq> [] then
                 filter_history_loop
                   (filtered_history @ [m\<lparr>content := JList filtered_content\<rparr>]) ms
               else filter_history_loop filtered_history ms)
      | _ \<Rightarrow> filter_history_loop (filtered_history @ [m]) ms)"

definition filter_history :: "conversation \<Rightarrow> exn + message list" where
  "filter_history conv = filter_history_loop [] (history conv)"

section \<open>The file system\<close>

text \<open>
  The operating system behind \<^verbatim>\<open>open\<close>: files are stored under their resolved absolute
  path, and \<open>resolve\<close> does what the system does with an absolute path, dropping empty and
  \<^verbatim>\<open>.\<close> segments and letting \<^verbatim>\<open>..\<close> step back to the parent (no symbolic links). Every
  \<^verbatim>\<open>open\<close> is logged with the resolved path, whether it succeeds or not.
\<close>

fun split_on :: "char \<Rightarrow> string \<Rightarrow> string list" where
  "split_on c [] = [[]]"
| "split_on c (x # xs) =
     (if x = c then [] # split_on c xs
      else (case split_on c xs of [] \<Rightarrow> [[x]] | w # ws \<Rightarrow> (x # w) # ws))"

fun resolve_segments :: "string list \<Rightarrow> string list \<Rightarrow> string list" where
  "resolve_segments stack [] = rev stack"
| "resolve_segments stack (seg # segs) =
     (if seg = [] \<or> seg = ''.'' then resolve_segments stack segs
      else if seg = ''..'' then
        resolve_segments (case stack of [] \<Rightarrow> [] | parent # below \<Rightarrow> below) segs
      else resolve_segments (seg # stack) segs)"

definition resolve :: "string \<Rightarrow> string" where
  "resolve p =
     (case resolve_segments [] (split_on CHR ''/'' p) of
        [] \<Rightarrow> ''/''
      | segs \<Rightarrow> concat (map (\<lambda>seg. ''/'' @ seg) segs))"

datatype access = Read string | Write string

record filesystem =
  stored :: "string \<rightharpoonup> string"
  writable :: "string \<Rightarrow> bool"
  accessed :: "access list"

definition fs_read :: "filesystem \<Rightarrow> string \<Rightarrow> (exn + string) \<times> filesystem" where
  "fs_read fs p =
     (let fs' = fs\<lparr>accessed := accessed fs @ [Read (resolve p)]\<rparr>
      in case stored fs (resolve p) of
           None \<Rightarrow> (Inl (OSError (''[Errno 2] No such file or directory: '' @ quote @ p @ quote)), fs')
         | Some text \<Rightarrow> (Inr text, fs'))"

definition fs_write :: "filesystem \<Rightarrow> string \<Rightarrow> string \<Rightarrow> (exn + unit) \<times> filesystem" where
  "fs_write fs p text =
     (let fs' = fs\<lparr>accessed := accessed fs @ [Write (resolve p)]\<rparr>
      in if writable fs (resolve p) then (Inr (), fs'\<lparr>stored := (stored fs)(resolve p \<mapsto> text)\<rparr>)
         else (Inl (OSError (''[Errno 13] Permission denied: '' @ quote @ p @ quote)), fs'))"

section \<open>FileOperations (tools/file\_operations.py)\<close>

text \<open>
  \<^verbatim>\<open>edit_and_apply_multiple\<close> reads \<^verbatim>\<open>self.claude_client\<close>, an attribute that
  \<^verbatim>\<open>FileOperations.__init__\<close> does not set and that no code of the repository assigns:
  the field is \<open>None\<close> after construction, and reading it then raises AttributeError.
  When it is set, the client answers \<^verbatim>\<open>generate_edit_instructions(relative_path,
  current_content, instructions, project_context, ...)\<close> with a text or an exception.
\<close>

type_synonym edit_client = "string \<Rightarrow> string \<Rightarrow> json \<Rightarrow> json \<Rightarrow> exn + string"

record file_operations =
  file_contents :: "string \<rightharpoonup> json"
  claude_client_attr :: "edit_client option"

definition FileOperations_init :: file_operations where
  "FileOperations_init = \<lparr>file_contents = Map.empty, claude_client_attr = None\<rparr>"

definition reset_file_contents :: "file_operations \<Rightarrow> file_operations" where
  "reset_file_contents fo = fo\<lparr>file_contents := Map.empty\<rparr>"

definition update_file_contents ::
  "string \<Rightarrow> string \<Rightarrow> json \<Rightarrow> file_operations \<Rightarrow> file_operations" where
  "update_file_contents cwd file_path content' fo =
     (let generations_path = path_join (path_join cwd ''_generations'') file_path
      in fo\<lparr>file_contents := (file_contents fo)(generations_path \<mapsto> content')\<rparr>)"

definition success_entry :: "string \<Rightarrow> json" where
  "success_entry relative_path =
     JObj [(''path'', JStr relative_path), (''status'', JStr ''success''),
           (''message'', JStr ''File edited successfully'')]"

definition error_entry :: "json \<Rightarrow> exn \<Rightarrow> json" where
  "error_entry path e =
     JObj [(''path'', path), (''status'', JStr ''error''), (''message'', JStr (str_exn e))]"

text \<open>
  The body of the \<^verbatim>\<open>try\<close> of \<^verbatim>\<open>edit_and_apply_multiple\<close> for one file. \<open>apply_edits\<close>
  stands for \<^verbatim>\<open>FileOperations.apply_edits\<close>, a pure function of the content and the
  edit instructions (regular-expression search and replace).
\<close>

definition edit_try ::
  "string \<Rightarrow> (string \<Rightarrow> string \<Rightarrow> string) \<Rightarrow> json \<Rightarrow> json \<Rightarrow>
   file_operations \<times> filesystem \<Rightarrow> (exn + json) \<times> file_operations \<times> filesystem" where
  "edit_try cwd apply_edits project_context file st =
     (let generations_dir = path_join cwd ''_generations''; fo = fst st; fs = snd st in
      case py_getitem file ''path'' of
        Inl e \<Rightarrow> (Inl e, fo, fs)
      | Inr (JStr relative_path) \<Rightarrow>
          (let full_path = path_join generations_dir relative_path in
           case py_getitem file ''instructions'' of
             Inl e \<Rightarrow> (Inl e, fo, fs)
           | Inr instructions \<Rightarrow>
               if \<not> prefix generations_dir full_path then
                 (Inl (ValueError (''File '' @ relative_path @
                    '' is not within the _generations directory'')), fo, fs)
               else
                 (case fs_read fs full_path of
                    (Inl e, fs1) \<Rightarrow> (Inl e, fo, fs1)
                  | (Inr current_content, fs1) \<Rightarrow>
                      (case claude_client_attr fo of
                         None \<Rightarrow>
                           (Inl (AttributeError (quote @ ''FileOperations'' @ quote @
                              '' object has no attribute '' @ quote @ ''claude_client'' @ quote)),
                            fo, fs1)
                       | Some client \<Rightarrow>
                           (case client relative_path current_content instructions project_context of
                              Inl e \<Rightarrow> (Inl e, fo, fs1)
                            | Inr edit_instructions \<Rightarrow>
                                (let new_content = apply_edits current_content edit_instructions in
                                 case fs_write fs1 full_path new_content of
                                   (Inl e, fs2) \<Rightarrow> (Inl e, fo, fs2)
                                 | (Inr u, fs2) \<Rightarrow>
                                     (Inr (success_entry relative_path),
                                      fo\<lparr>file_contents :=
                                           (file_contents fo)(full_path \<mapsto> JStr new_content)\<rparr>,
                                      fs2))))))
      | Inr other \<Rightarrow>
          (Inl (TypeError (''expected str, bytes or os.PathLike object, not '' @ type_name other)),
           fo, fs))"

text \<open>
  The loop with its \<^verbatim>\<open>except Exception\<close> handler. The handler reads \<^verbatim>\<open>file['path']\<close>
  again; when that raises, the exception leaves the function.
\<close>

fun edit_loop ::
  "string \<Rightarrow> (string \<Rightarrow> string \<Rightarrow> string) \<Rightarrow> json \<Rightarrow> json list \<Rightarrow>
   file_operations \<times> filesystem \<Rightarrow> json list \<Rightarrow> (exn + json list) \<times> file_operations \<times> filesystem" where
  "edit_loop cwd apply_edits project_context results st [] = (Inr results, st)"
| "edit_loop cwd apply_edits project_context results st (file # files) =
     (case edit_try cwd apply_edits project_context file st of
        (Inr entry, st') \<Rightarrow>
          edit_loop cwd apply_edits project_context (results @ [entry]) st' files
      | (Inl e, st') \<Rightarrow>
          (case py_getitem file ''path'' of
             Inl e' \<Rightarrow> (Inl e', st')
           | Inr path \<Rightarrow>
               edit_loop cwd apply_edits project_context (results @ [error_entry path e]) st' files))"

definition edit_and_apply_multiple ::
  "string \<Rightarrow> (string \<Rightarrow> string \<Rightarrow> string) \<Rightarrow> json list \<Rightarrow> json \<Rightarrow>
   file_operations \<times> filesystem \<Rightarrow> (exn + json list) \<times> file_operations \<times> filesystem" where
  "edit_and_apply_multiple cwd apply_edits files project_context st =
     edit_loop cwd apply_edits project_context [] st files"

text \<open>
  The shape of an entry of the result list: exactly the keys \<^verbatim>\<open>path\<close>, \<^verbatim>\<open>status\<close> and
  \<^verbatim>\<open>message\<close>, in this order, with the status \<^verbatim>\<open>success\<close> or \<^verbatim>\<open>error\<close>.
\<close>

fun is_edit_result :: "json \<Rightarrow> bool" where
  "is_edit_result (JObj [(k1, p), (k2, JStr status), (k3, JStr m)]) =
     (k1 = ''path'' \<and> k2 = ''status'' \<and> k3 = ''message'' \<and>
      (status = ''success'' \<or> status = ''error''))"
| "is_edit_result other = False"

section \<open>Retry decision (ChatManager.decide\_retry)\<close>

record retry_decision =
  retry :: bool
  files_to_retry :: "json list"

definition retry_phrases :: "string list" where
  "retry_phrases =
     [''need to retry'', ''should try again'', ''another attempt is necessary'',
      ''errors that need addressing'', ''requires further editing'']"

text \<open>
  The module-level name \<^verbatim>\<open>re\<close> of chat/chat\_manager.py. The module imports
  \<^verbatim>\<open>asyncio\<close>, \<^verbatim>\<open>os\<close>, \<^verbatim>\<open>json\<close>, \<^verbatim>\<open>traceback\<close>, names of \<^verbatim>\<open>rich\<close> and of the
  repository's own modules, and never \<^verbatim>\<open>re\<close>: the name is unbound. A bound name would
  be \<open>Some findall\<close>, with \<open>findall\<close> the call \<^verbatim>\<open>re.findall(pattern, text, re.IGNORECASE)\<close>
  of \<^verbatim>\<open>decide_retry\<close> as a function of the text.
\<close>

definition chat_manager_re :: "(string \<Rightarrow> string list) option" where
  "chat_manager_re = None"

text \<open>\<^verbatim>\<open>any(result.get("is_error", False) for result in edit_results)\<close>.\<close>

fun errors_present_loop :: "json list \<Rightarrow> exn + bool" where
  "errors_present_loop [] = Inr False"
| "errors_present_loop (result # results) =
     (case py_get result ''is_error'' (JBool False) of
        Inl e \<Rightarrow> Inl e
      | Inr v \<Rightarrow> if truthy v then Inr True else errors_present_loop results)"

text \<open>\<^verbatim>\<open>[result["path"] for result in edit_results if "path" in result]\<close>.\<close>

fun result_paths :: "json list \<Rightarrow> exn + json list" where
  "result_paths [] = Inr []"
| "result_paths (result # results) =
     (case py_in ''path'' result of
        Inl e \<Rightarrow> Inl e
      | Inr False \<Rightarrow> result_paths results
      | Inr True \<Rightarrow>
          (case py_getitem result ''path'' of
             Inl e \<Rightarrow> Inl e
           | Inr p \<Rightarrow>
               (case result_paths results of Inl e \<Rightarrow> Inl e | Inr ps \<Rightarrow> Inr (p # ps))))"

text \<open>\<^verbatim>\<open>', '.join(xs)\<close> raises on the first item that is not a string.\<close>

fun join_check :: "nat \<Rightarrow> json list \<Rightarrow> exn + unit" where
  "join_check i [] = Inr ()"
| "join_check i (JStr s # xs) = join_check (Suc i) xs"
| "join_check i (x # xs) =
     Inl (TypeError (''sequence item '' @ str_nat i @ '': expected str instance, '' @
       type_name x @ '' found''))"

text \<open>
  \<open>decide_retry re tool_checker_response edit_results\<close>, with \<open>re\<close> the binding of the
  module-level name. \<^verbatim>\<open>list(set(file_paths))\<close> keeps one copy of each path, in an order
  Python does not fix; \<open>remdups\<close> picks one.
\<close>

definition retry_triggered :: "bool \<Rightarrow> string \<Rightarrow> bool" where
  "retry_triggered errors_present tool_checker_response =
     (errors_present \<or>
      list_ex (\<lambda>phrase. sublist phrase (lower tool_checker_response)) retry_phrases)"

definition decide_retry ::
  "(string \<Rightarrow> string list) option \<Rightarrow> string \<Rightarrow> json \<Rightarrow> exn + retry_decision" where
  "decide_retry re tool_checker_response edit_results =
     (case py_iter edit_results of
        Inl e \<Rightarrow> Inl e
      | Inr results \<Rightarrow>
          (case errors_present_loop results of
             Inl e \<Rightarrow> Inl e
           | Inr errors_present \<Rightarrow>
               if retry_triggered errors_present tool_checker_response then
                 (case re of
                    None \<Rightarrow> Inl (NameError (''name '' @ quote @ ''re'' @ quote @ '' is not defined''))
                  | Some findall \<Rightarrow>
                      (let file_paths = remdups (map JStr (findall tool_checker_response)) in
                       case (if file_paths \<noteq> [] then Inr file_paths else result_paths results) of
                         Inl e \<Rightarrow> Inl e
                       | Inr paths \<Rightarrow>
                           (case join_check 0 paths of
                              Inl e \<Rightarrow> Inl e
                            | Inr u \<Rightarrow> Inr \<lparr>retry = True, files_to_retry = paths\<rparr>)))
               else Inr \<lparr>retry = False, files_to_retry = []\<rparr>))"

section \<open>TokenTracker, ClaudeClient, CodeExecutor\<close>

record token_tracker =
  token_usage :: "string \<rightharpoonup> int \<times> int"

definition TokenTracker_init :: token_tracker where
  "TokenTracker_init =
     \<lparr>token_usage = [''main_model'' \<mapsto> (0, 0), ''tool_checker'' \<mapsto> (0, 0),
                      ''code_editor'' \<mapsto> (0, 0), ''code_execution'' \<mapsto> (0, 0)]\<rparr>"

definition update_token_usage :: "string \<Rightarrow> int \<Rightarrow> int \<Rightarrow> token_tracker \<Rightarrow> token_tracker" where
  "update_token_usage model input_tokens output_tokens tt =
     (case token_usage tt model of
        Some (i, out) \<Rightarrow>
          tt\<lparr>token_usage := (token_usage tt)(model \<mapsto> (i + input_tokens, out + output_tokens))\<rparr>
      | None \<Rightarrow> tt)"

definition reset_token_usage :: "token_tracker \<Rightarrow> token_tracker" where
  "reset_token_usage tt =
     tt\<lparr>token_usage := (\<lambda>model. map_option (\<lambda>usage. (0, 0)) (token_usage tt model))\<rparr>"

text \<open>
  A call \<^verbatim>\<open>obj.name()\<close> looks the name up in the class. The table lists the methods of
  \<^verbatim>\<open>TokenTracker\<close> that take no argument; its other attributes are \<^verbatim>\<open>console\<close>,
  \<^verbatim>\<open>token_usage\<close>, \<^verbatim>\<open>cost_per_1k_tokens\<close>, \<^verbatim>\<open>update_token_usage\<close>,
  \<^verbatim>\<open>get_total_tokens\<close>, \<^verbatim>\<open>calculate_cost\<close> and \<^verbatim>\<open>update_cost_per_1k_tokens\<close>. A name the
  class does not have raises AttributeError.
\<close>

definition TokenTracker_methods :: "(string \<times> (token_tracker \<Rightarrow> token_tracker)) list" where
  "TokenTracker_methods =
     [(''display_token_usage'', \<lambda>tt. tt), (''reset_token_usage'', reset_token_usage)]"

definition call_method :: "string \<Rightarrow> (string \<times> ('s \<Rightarrow> 's)) list \<Rightarrow> string \<Rightarrow> 's \<Rightarrow> exn + 's" where
  "call_method cls methods name obj =
     (case map_of methods name of
        Some method \<Rightarrow> Inr (method obj)
      | None \<Rightarrow>
          Inl (AttributeError (quote @ cls @ quote @ '' object has no attribute '' @
            quote @ name @ quote)))"

record claude_client =
  code_editor_memory :: "string list"
  code_editor_files :: "string set"

definition ClaudeClient_init :: claude_client where
  "ClaudeClient_init = \<lparr>code_editor_memory = [], code_editor_files = {}\<rparr>"

definition reset_code_editor_memory :: "claude_client \<Rightarrow> claude_client" where
  "reset_code_editor_memory c = c\<lparr>code_editor_memory := [], code_editor_files := {}\<rparr>"

text \<open>
  \<^verbatim>\<open>CodeExecutor\<close> keeps processes and a virtual environment, which live outside the
  program (the state \<open>'x\<close>). Its methods without argument are
  \<^verbatim>\<open>setup_virtual_environment\<close>, \<^verbatim>\<open>list_installed_packages\<close> and \<^verbatim>\<open>cleanup\<close>; what they do
  to the outside is a parameter.
\<close>

definition CodeExecutor_methods :: "(string \<Rightarrow> 'x \<Rightarrow> 'x) \<Rightarrow> (string \<times> ('x \<Rightarrow> 'x)) list" where
  "CodeExecutor_methods effect =
     [(''setup_virtual_environment'', effect ''setup_virtual_environment''),
      (''list_installed_packages'', effect ''list_installed_packages''),
      (''cleanup'', effect ''cleanup'')]"

section \<open>ChatManager (chat/chat\_manager.py)\<close>

text \<open>
  What the model backend returns: content blocks and the token usage.
\<close>

record tool_use =
  use_id :: string
  use_name :: string
  use_input :: json

datatype content_block = TextBlock string | ToolUseBlock tool_use | OtherBlock string

record response =
  response_content :: "content_block list"
  input_tokens :: int
  output_tokens :: int

datatype display = Info string | Error string | Success string

text \<open>
  The state of a \<^verbatim>\<open>ChatManager\<close>: its objects, the file system, and whatever else lives
  outside (\<open>ext\<close>: processes, the network). \<open>console\<close> is what \<^verbatim>\<open>handle_automode\<close>
  displays (the display calls of the other methods only print and are left out).
  \<open>llm_calls\<close> counts the model round trips and \<open>tool_log\<close> lists the tool calls
  dispatched so far; the program has neither, they record what it did.
\<close>

record 'x chat_manager =
  conversation :: conversation
  token_tracker :: token_tracker
  file_ops :: file_operations
  claude_client :: claude_client
  automode :: bool
  console :: "display list"
  llm_calls :: nat
  tool_log :: "(string \<times> json) list"
  fs :: filesystem
  ext :: 'x

type_synonym 'x world = "file_operations \<times> filesystem \<times> 'x"

definition world_of :: "'x chat_manager \<Rightarrow> 'x world" where
  "world_of st = (file_ops st, fs st, ext st)"

definition set_world :: "'x world \<Rightarrow> 'x chat_manager \<Rightarrow> 'x chat_manager" where
  "set_world w st = st\<lparr>file_ops := fst w, fs := fst (snd w), ext := snd (snd w)\<rparr>"

text \<open>
  The surroundings of the program. \<open>api n messages system_prompt\<close> is the answer of the
  model backend to the \<open>n\<close>-th request (the tool catalogue sent along is always
  \<^verbatim>\<open>config.tools\<close>). The tool handlers other than \<^verbatim>\<open>edit_and_apply_multiple\<close> act on the
  world and return a result or raise. \<open>dumps\<close> is \<^verbatim>\<open>json.dumps\<close>, \<open>dumps_indent\<close> the
  same with \<^verbatim>\<open>indent=2\<close>.
\<close>

record 'x env =
  cwd :: string
  CONTINUATION_EXIT_PHRASE :: string
  api :: "nat \<Rightarrow> message list \<Rightarrow> string \<Rightarrow> exn + response"
  dumps :: "json \<Rightarrow> string"
  dumps_indent :: "json \<Rightarrow> string"
  apply_edits :: "string \<Rightarrow> string \<Rightarrow> string"
  encode_image_to_base64 :: "string \<Rightarrow> (string \<times> string) option"
  create_files :: "json \<Rightarrow> 'x world \<Rightarrow> (exn + json) \<times> 'x world"
  tavily_search :: "json \<Rightarrow> 'x world \<Rightarrow> (exn + json) \<times> 'x world"
  create_folders :: "json \<Rightarrow> 'x world \<Rightarrow> (exn + json) \<times> 'x world"
  execute_code :: "json \<Rightarrow> 'x world \<Rightarrow> (exn + json) \<times> 'x world"
  stop_process :: "json \<Rightarrow> 'x world \<Rightarrow> (exn + json) \<times> 'x world"
  read_multiple_files :: "json \<Rightarrow> 'x world \<Rightarrow> (exn + json) \<times> 'x world"
  list_files :: "json \<Rightarrow> 'x world \<Rightarrow> (exn + json) \<times> 'x world"
  code_executor_effect :: "string \<Rightarrow> 'x \<Rightarrow> 'x"

definition base_prompt :: string where
  "base_prompt = ''You are Claude, an AI assistant created by Anthropic to be helpful, harmless, and honest. Your primary function is to assist users with coding tasks, answer questions, and provide guidance on software development topics.''"

definition update_system_prompt :: "int option \<Rightarrow> int option \<Rightarrow> string" where
  "update_system_prompt current_iteration max_iterations =
     (case (current_iteration, max_iterations) of
        (Some c, Some m) \<Rightarrow>
          base_prompt @ newline @ ''Current iteration: '' @ str_int c @ ''/'' @ str_int m
      | _ \<Rightarrow> base_prompt)"

text \<open>
  \<^verbatim>\<open>ClaudeClient.generate_response\<close>: repair the alternation, call the backend, wrap any
  exception.
\<close>

definition generate_response ::
  "'x env \<Rightarrow> message list \<Rightarrow> string \<Rightarrow> 'x chat_manager \<Rightarrow> (exn + response) \<times> 'x chat_manager" where
  "generate_response env messages system_prompt st =
     (let st' = st\<lparr>llm_calls := Suc (llm_calls st)\<rparr> in
      case api env (llm_calls st) (ensure_alternating_roles messages) system_prompt of
        Inl e \<Rightarrow> (Inl (Exception (''Error generating response: '' @ str_exn e)), st')
      | Inr r \<Rightarrow> (Inr r, st'))"

text \<open>
  \<^verbatim>\<open>ChatManager.execute_tool\<close>: the \<^verbatim>\<open>if\<close>/\<^verbatim>\<open>elif\<close> chain inside \<^verbatim>\<open>try\<close>, and the
  handler that turns any exception into an error envelope.
\<close>

definition error_envelope :: "string \<Rightarrow> json" where
  "error_envelope text = JObj [(''is_error'', JBool True), (''content'', JStr text)]"

definition with_arg ::
  "json \<Rightarrow> string \<Rightarrow> (json \<Rightarrow> 'x world \<Rightarrow> (exn + json) \<times> 'x world) \<Rightarrow> 'x world \<Rightarrow>
   (exn + json) \<times> 'x world" where
  "with_arg tool_input key handler w =
     (case py_getitem tool_input key of Inl e \<Rightarrow> (Inl e, w) | Inr arg \<Rightarrow> handler arg w)"

definition run_edit ::
  "'x env \<Rightarrow> json \<Rightarrow> 'x world \<Rightarrow> (exn + json list) \<times> 'x world" where
  "run_edit env tool_input w =
     (case py_getitem tool_input ''files'' of
        Inl e \<Rightarrow> (Inl e, w)
      | Inr files \<Rightarrow>
          (case py_getitem tool_input ''project_context'' of
             Inl e \<Rightarrow> (Inl e, w)
           | Inr project_context \<Rightarrow>
               (case py_iter files of
                  Inl e \<Rightarrow> (Inl e, w)
                | Inr file_list \<Rightarrow>
                    (case edit_and_apply_multiple (cwd env) (apply_edits env) file_list
                            project_context (fst w, fst (snd w)) of
                       (r, fo, fs') \<Rightarrow> (r, fo, fs', snd (snd w))))))"

definition execute_tool :: "'x env \<Rightarrow> string \<Rightarrow> json \<Rightarrow> 'x world \<Rightarrow> json \<times> 'x world" where
  "execute_tool env tool_name tool_input w =
     (case
        (if tool_name = ''create_folders'' then with_arg tool_input ''paths'' (create_folders env) w
         else if tool_name = ''edit_and_apply_multiple'' then
           (case run_edit env tool_input w of
              (Inl e, w') \<Rightarrow> (Inl e, w')
            | (Inr results, w') \<Rightarrow> (Inr (JList results), w'))
         else if tool_name = ''execute_code'' then with_arg tool_input ''code'' (execute_code env) w
         else if tool_name = ''stop_process'' then
           with_arg tool_input ''process_id'' (stop_process env) w
         else if tool_name = ''read_multiple_files'' then
           with_arg tool_input ''paths'' (read_multiple_files env) w
         else if tool_name = ''list_files'' then
           (case py_get tool_input ''path'' (JStr ''./_generations'') of
              Inl e \<Rightarrow> (Inl e, w)
            | Inr path \<Rightarrow> list_files env path w)
         else (Inr (error_envelope (''Unknown tool: '' @ tool_name)), w))
      of
        (Inl e, w') \<Rightarrow> (error_envelope (''Error executing '' @ tool_name @ '': '' @ str_exn e), w')
      | (Inr tool_result, w') \<Rightarrow> (tool_result, w'))"

text \<open>
  The dispatch at the head of the tool loop of \<^verbatim>\<open>chat_with_claude\<close>: two tools are called
  directly, outside any \<^verbatim>\<open>try\<close>.
\<close>

definition run_tool :: "'x env \<Rightarrow> string \<Rightarrow> json \<Rightarrow> 'x world \<Rightarrow> (exn + json) \<times> 'x world" where
  "run_tool env tool_name tool_input w =
     (if tool_name = ''create_files'' then
        (case py_get tool_input ''files'' (JList [tool_input]) of
           Inl e \<Rightarrow> (Inl e, w)
         | Inr files \<Rightarrow> create_files env files w)
      else if tool_name = ''tavily_search'' then with_arg tool_input ''query'' (tavily_search env) w
      else (case execute_tool env tool_name tool_input w of (r, w') \<Rightarrow> (Inr r, w')))"

text \<open>The messages the orchestrator appends to the turn buffer for one tool call.\<close>

definition tool_use_message :: "tool_use \<Rightarrow> message" where
  "tool_use_message tu =
     \<lparr>role = ''assistant'',
      content = JList [JObj [(''type'', JStr ''tool_use''), (''id'', JStr (use_id tu)),
                             (''name'', JStr (use_name tu)), (''input'', use_input tu)]]\<rparr>"

definition tool_result_block :: "string \<Rightarrow> string \<Rightarrow> json \<Rightarrow> json" where
  "tool_result_block tool_use_id text is_error =
     JObj [(''type'', JStr ''tool_result''), (''tool_use_id'', JStr tool_use_id),
           (''content'', JList [JObj [(''type'', JStr ''text''), (''text'', JStr text)]]),
           (''is_error'', is_error)]"

text \<open>
  \<^verbatim>\<open>json.dumps(tool_result) if isinstance(tool_result, (dict, list)) else str(tool_result)\<close>
  and \<^verbatim>\<open>tool_result.get("is_error", False) if isinstance(tool_result, dict) else False\<close>.
\<close>

fun result_text :: "'x env \<Rightarrow> json \<Rightarrow> string" where
  "result_text env (JObj d) = dumps env (JObj d)"
| "result_text env (JList xs) = dumps env (JList xs)"
| "result_text env (JStr s) = s"
| "result_text env (JInt i) = str_int i"
| "result_text env (JBool b) = (if b then ''True'' else ''False'')"
| "result_text env JNull = ''None''"

fun result_is_error :: "json \<Rightarrow> json" where
  "result_is_error (JObj d) = (case map_of d ''is_error'' of None \<Rightarrow> JBool False | Some v \<Rightarrow> v)"
| "result_is_error x = JBool False"

definition tool_result_message :: "'x env \<Rightarrow> tool_use \<Rightarrow> json \<Rightarrow> message" where
  "tool_result_message env tu tool_result =
     \<lparr>role = ''user'',
      content = JList [tool_result_block (use_id tu) (result_text env tool_result)
                         (result_is_error tool_result)]\<rparr>"

text \<open>
  \<^verbatim>\<open>display_error(tool_result["content"])\<close> for an error envelope: the subscript raises
  when the envelope has no content.
\<close>

definition display_tool_result :: "json \<Rightarrow> exn + unit" where
  "display_tool_result tool_result =
     (case tool_result of
        JObj d \<Rightarrow>
          if truthy (result_is_error tool_result) then
            (case py_getitem tool_result ''content'' of Inl e \<Rightarrow> Inl e | Inr c \<Rightarrow> Inr ())
          else Inr ()
      | _ \<Rightarrow> Inr ())"

text \<open>
  The loop of \<^verbatim>\<open>chat_with_claude\<close> over \<^verbatim>\<open>response.content\<close>: the text is concatenated,
  the exit phrase is looked for in each text block, the tool calls are collected.
\<close>

fun split_response ::
  "string \<Rightarrow> string \<times> bool \<times> tool_use list \<Rightarrow> content_block list \<Rightarrow> string \<times> bool \<times> tool_use list" where
  "split_response phrase acc [] = acc"
| "split_response phrase (assistant_response, exit_continuation, tool_uses) (TextBlock text # blocks) =
     split_response phrase
       (assistant_response @ text, exit_continuation \<or> sublist phrase text, tool_uses) blocks"
| "split_response phrase (assistant_response, exit_continuation, tool_uses) (ToolUseBlock tu # blocks) =
     split_response phrase (assistant_response, exit_continuation, tool_uses @ [tu]) blocks"
| "split_response phrase acc (OtherBlock t # blocks) = split_response phrase acc blocks"

fun text_of_blocks :: "content_block list \<Rightarrow> string" where
  "text_of_blocks [] = []"
| "text_of_blocks (TextBlock text # blocks) = text @ text_of_blocks blocks"
| "text_of_blocks (b # blocks) = text_of_blocks blocks"

text \<open>
  The retry of \<^verbatim>\<open>chat_with_claude\<close> (inside the \<^verbatim>\<open>try\<close> of the follow-up): the files to
  retry are selected, \<^verbatim>\<open>edit_and_apply_multiple\<close> runs again, and its result list is
  unpacked into two names, which raises ValueError unless the list has two entries.
\<close>

fun retry_files_of :: "json list \<Rightarrow> json list \<Rightarrow> exn + json list" where
  "retry_files_of to_retry [] = Inr []"
| "retry_files_of to_retry (file # files) =
     (case py_getitem file ''path'' of
        Inl e \<Rightarrow> Inl e
      | Inr p \<Rightarrow>
          (case retry_files_of to_retry files of
             Inl e \<Rightarrow> Inl e
           | Inr rest \<Rightarrow> Inr (if p \<in> set to_retry then file # rest else rest)))"

definition unpack2 :: "json list \<Rightarrow> exn + json \<times> json" where
  "unpack2 xs =
     (case xs of
        [a, b] \<Rightarrow> Inr (a, b)
      | _ \<Rightarrow>
          if length xs < 2 then
            Inl (ValueError (''not enough values to unpack (expected 2, got '' @
              str_nat (length xs) @ '')''))
          else Inl (ValueError ''too many values to unpack (expected 2)''))"

definition retry_edit ::
  "'x env \<Rightarrow> json \<Rightarrow> retry_decision \<Rightarrow> 'x world \<Rightarrow> (exn + json) \<times> 'x world" where
  "retry_edit env tool_input decision w =
     (case py_getitem tool_input ''files'' of
        Inl e \<Rightarrow> (Inl e, w)
      | Inr files \<Rightarrow>
          (case py_iter files of
             Inl e \<Rightarrow> (Inl e, w)
           | Inr file_list \<Rightarrow>
               (case retry_files_of (files_to_retry decision) file_list of
                  Inl e \<Rightarrow> (Inl e, w)
                | Inr retry_files \<Rightarrow>
                    (case py_getitem tool_input ''project_context'' of
                       Inl e \<Rightarrow> (Inl e, w)
                     | Inr project_context \<Rightarrow>
                         (case edit_and_apply_multiple (cwd env) (apply_edits env) retry_files
                                 project_context (fst w, fst (snd w)) of
                            (Inl e, fo, fs') \<Rightarrow> (Inl e, fo, fs', snd (snd w))
                          | (Inr results, fo, fs') \<Rightarrow>
                              (case unpack2 results of
                                 Inl e \<Rightarrow> (Inl e, fo, fs', snd (snd w))
                               | Inr (retry_result, retry_console_output) \<Rightarrow>
                                   (Inr retry_result, fo, fs', snd (snd w))))))))"

text \<open>
  The follow-up of one tool call: the \<^verbatim>\<open>try\<close> block after the tool result has been put
  into the turn buffer, with its \<^verbatim>\<open>except Exception\<close> handler. What was appended to
  \<^verbatim>\<open>assistant_response\<close> before an exception stays.
\<close>

definition error_in_tool_response :: "exn \<Rightarrow> string" where
  "error_in_tool_response e = newline @ newline @ ''Error in tool response: '' @ str_exn e"

definition followup ::
  "'x env \<Rightarrow> string \<Rightarrow> message list \<Rightarrow> tool_use \<Rightarrow> json \<Rightarrow> string \<Rightarrow> 'x chat_manager \<Rightarrow>
   string \<times> 'x chat_manager" where
  "followup env system_prompt messages tu tool_result assistant_response st =
     (case generate_response env messages system_prompt st of
        (Inl e, st1) \<Rightarrow> (assistant_response @ error_in_tool_response e, st1)
      | (Inr tool_response, st1) \<Rightarrow>
          (let st2 = st1\<lparr>token_tracker :=
                 update_token_usage ''tool_checker'' (input_tokens tool_response)
                   (output_tokens tool_response) (token_tracker st1)\<rparr>;
               tool_checker_response = text_of_blocks (response_content tool_response);
               assistant_response1 = assistant_response @ newline @ newline @ tool_checker_response
           in
           if use_name tu = ''edit_and_apply_multiple'' then
             (case decide_retry chat_manager_re tool_checker_response tool_result of
                Inl e \<Rightarrow> (assistant_response1 @ error_in_tool_response e, st2)
              | Inr decision \<Rightarrow>
                  if retry decision then
                    (case retry_edit env (use_input tu) decision (world_of st2) of
                       (Inl e, w) \<Rightarrow>
                         (assistant_response1 @ error_in_tool_response e, set_world w st2)
                     | (Inr retry_result, w) \<Rightarrow>
                         (assistant_response1 @ newline @ newline @ ''Retry result: '' @
                            dumps_indent env retry_result,
                          set_world w st2))
                  else (assistant_response1, st2))
           else (assistant_response1, st2)))"

text \<open>
  The loop over \<^verbatim>\<open>tool_uses\<close>. An exception of a directly called tool, or of the display
  of an error envelope without content, leaves \<^verbatim>\<open>chat_with_claude\<close>.
\<close>

fun tool_loop ::
  "'x env \<Rightarrow> string \<Rightarrow> message list \<Rightarrow> message list \<Rightarrow> string \<Rightarrow> tool_use list \<Rightarrow>
   'x chat_manager \<Rightarrow> (exn + string) \<times> 'x chat_manager" where
  "tool_loop env system_prompt filtered_conversation_history current_conversation
      assistant_response [] st = (Inr assistant_response, st)"
| "tool_loop env system_prompt filtered_conversation_history current_conversation
      assistant_response (tu # tool_uses) st =
     (let st0 = st\<lparr>tool_log := tool_log st @ [(use_name tu, use_input tu)]\<rparr> in
      case run_tool env (use_name tu) (use_input tu) (world_of st0) of
        (Inl e, w) \<Rightarrow> (Inl e, set_world w st0)
      | (Inr tool_result, w) \<Rightarrow>
          (case display_tool_result tool_result of
             Inl e \<Rightarrow> (Inl e, set_world w st0)
           | Inr u \<Rightarrow>
               (let st1 = set_world w st0;
                    current_conversation' =
                      current_conversation @
                        [tool_use_message tu, tool_result_message env tu tool_result];
                    st2 = st1\<lparr>file_ops :=
                        update_file_contents (cwd env) (use_name tu) (use_input tu) (file_ops st1)\<rparr>;
                    messages = filtered_conversation_history @ current_conversation'
                in case followup env system_prompt messages tu tool_result assistant_response st2 of
                     (assistant_response', st3) \<Rightarrow>
                       tool_loop env system_prompt filtered_conversation_history
                         current_conversation' assistant_response' tool_uses st3)))"

text \<open>
  \<^verbatim>\<open>chat_with_claude(user_input, image_path, current_iteration, max_iterations)\<close>. The
  result is the pair \<^verbatim>\<open>(assistant_response, exit_continuation)\<close>, or the exception that
  leaves the method. The last lines of the method append the assistant response to the
  local list \<^verbatim>\<open>messages\<close> and bind the local name \<^verbatim>\<open>conversation_history\<close>; neither
  is read again, and the call \<^verbatim>\<open>self.conversation.add_message("assistant", ...)\<close> is
  commented out, so nothing of the state changes there.
\<close>

definition image_content :: "string \<Rightarrow> string \<Rightarrow> string \<Rightarrow> json" where
  "image_content mime_type base64_image user_input =
     JList [JObj [(''type'', JStr ''image''),
                  (''source'', JObj [(''type'', JStr ''base64''), (''media_type'', JStr mime_type),
                                     (''data'', JStr base64_image)])],
            JObj [(''type'', JStr ''text''),
                  (''text'', JStr (''User input for image: '' @ user_input))]]"

definition user_content_of :: "'x env \<Rightarrow> string \<Rightarrow> string option \<Rightarrow> json option" where
  "user_content_of env user_input image_path =
     (case image_path of
        None \<Rightarrow> Some (JStr user_input)
      | Some path \<Rightarrow>
          if path = [] then Some (JStr user_input)
          else (case encode_image_to_base64 env path of
                  None \<Rightarrow> None
                | Some (mime_type, base64_image) \<Rightarrow>
                    Some (image_content mime_type base64_image user_input)))"

definition chat_with_claude ::
  "'x env \<Rightarrow> string \<Rightarrow> string option \<Rightarrow> int option \<Rightarrow> int option \<Rightarrow> 'x chat_manager \<Rightarrow>
   (exn + string \<times> bool) \<times> 'x chat_manager" where
  "chat_with_claude env user_input image_path current_iteration max_iterations st =
     (case user_content_of env user_input image_path of
        None \<Rightarrow>
          (Inr (''Error processing the image. Please try again with a different image.'', False), st)
      | Some user_content \<Rightarrow>
          (let current_conversation = [\<lparr>role = ''user'', content = user_content\<rparr>];
               st1 = st\<lparr>conversation := add_message ''user'' user_content (conversation st)\<rparr>
           in
           case filter_history (conversation st1) of
             Inl e \<Rightarrow> (Inl e, st1)
           | Inr filtered_conversation_history \<Rightarrow>
               (let messages = ensure_alternating_roles
                      (filtered_conversation_history @ current_conversation);
                    system_prompt = update_system_prompt current_iteration max_iterations
                in
                case generate_response env messages system_prompt st1 of
                  (Inl e, st2) \<Rightarrow>
                    (Inr (''Error communicating with the AI: '' @ str_exn e, False), st2)
                | (Inr response, st2) \<Rightarrow>
                    (let st3 = st2\<lparr>token_tracker :=
                           update_token_usage ''main_model'' (input_tokens response)
                             (output_tokens response) (token_tracker st2)\<rparr>
                     in
                     case split_response (CONTINUATION_EXIT_PHRASE env) ([], False, [])
                            (response_content response) of
                       (assistant_response, exit_continuation, tool_uses) \<Rightarrow>
                         (case tool_loop env system_prompt filtered_conversation_history
                                 current_conversation assistant_response tool_uses st3 of
                            (Inl e, st4) \<Rightarrow> (Inl e, st4)
                          | (Inr assistant_response', st4) \<Rightarrow>
                              (Inr (assistant_response', exit_continuation), st4))))))"

text \<open>
  \<^verbatim>\<open>ChatManager.reset_conversation\<close>, statement by statement; an exception ends it with
  the state reached so far.
\<close>

definition reset_conversation :: "'x env \<Rightarrow> 'x chat_manager \<Rightarrow> (exn + unit) \<times> 'x chat_manager" where
  "reset_conversation env st =
     (let st1 = st\<lparr>conversation := Conversation_reset (conversation st)\<rparr> in
      case call_method ''TokenTracker'' TokenTracker_methods ''reset'' (token_tracker st1) of
        Inl e \<Rightarrow> (Inl e, st1)
      | Inr tt \<Rightarrow>
          (let st2 = st1\<lparr>token_tracker := tt\<rparr>;
               st3 = st2\<lparr>file_ops := reset_file_contents (file_ops st2)\<rparr>;
               st4 = st3\<lparr>claude_client := reset_code_editor_memory (claude_client st3)\<rparr>
           in
           case call_method ''CodeExecutor'' (CodeExecutor_methods (code_executor_effect env))
                  ''reset'' (ext st4) of
             Inl e \<Rightarrow> (Inl e, st4)
           | Inr x \<Rightarrow>
               (case call_method ''TokenTracker'' TokenTracker_methods ''display_token_usage''
                       (token_tracker st4) of
                  Inl e \<Rightarrow> (Inl e, st4\<lparr>ext := x\<rparr>)
                | Inr tt' \<Rightarrow> (Inr (), st4\<lparr>ext := x, token_tracker := tt'\<rparr>))))"

section \<open>Autonomous mode (ChatManager.handle\_automode)\<close>

text \<open>
  One call of the orchestrator from the loop returns its pair, raises an exception that
  \<^verbatim>\<open>except Exception\<close> catches, or is interrupted by the user (KeyboardInterrupt, which
  \<^verbatim>\<open>except Exception\<close> does not catch). The orchestrator is a parameter of the loop, so
  that a stub can take the place of \<^verbatim>\<open>chat_with_claude\<close>.
\<close>

datatype outcome = Returned string bool | Raised exn | KeyboardInterrupt

type_synonym 'x orchestrator =
  "string \<Rightarrow> int \<Rightarrow> int \<Rightarrow> 'x chat_manager \<Rightarrow> outcome \<times> 'x chat_manager"

definition orchestrator_of :: "'x env \<Rightarrow> 'x orchestrator" where
  "orchestrator_of env user_input current_iteration max_iterations st =
     (case chat_with_claude env user_input None (Some current_iteration) (Some max_iterations) st of
        (Inl e, st') \<Rightarrow> (Raised e, st')
      | (Inr (response, exit_continuation), st') \<Rightarrow> (Returned response exit_continuation, st'))"

definition max_errors :: int where
  "max_errors = 3"

definition display :: "display \<Rightarrow> 'x chat_manager \<Rightarrow> 'x chat_manager" where
  "display d st = st\<lparr>console := console st @ [d]\<rparr>"

definition continue_prompt :: string where
  "continue_prompt = ''Continue with the next step. Or STOP by saying '' @ quote @
     ''AUTOMODE_COMPLETE'' @ quote @ '' if you think you'' @ quote @
     ''ve achieved the results established in the original request.''"

definition interrupted :: "'x chat_manager \<Rightarrow> 'x chat_manager" where
  "interrupted st =
     (let st1 = display (Error (newline @ ''Automode interrupted by user. Exiting automode.'')) st;
          st2 = st1\<lparr>automode := False\<rparr>
      in st2\<lparr>conversation :=
           add_message ''assistant'' (JStr ''Automode interrupted. How can I assist you further?'')
             (conversation st2)\<rparr>)"

text \<open>
  The \<^verbatim>\<open>while\<close> loop of \<^verbatim>\<open>handle_automode\<close> on \<^verbatim>\<open>iteration_count\<close>, \<^verbatim>\<open>error_count\<close>
  and \<^verbatim>\<open>user_input\<close>. It stops: a successful turn raises \<^verbatim>\<open>iteration_count\<close> towards
  \<^verbatim>\<open>max_iterations\<close>, and a failed one raises \<^verbatim>\<open>error_count\<close> towards \<^verbatim>\<open>max_errors\<close>.
\<close>

function automode_loop ::
  "'x orchestrator \<Rightarrow> string \<Rightarrow> int \<Rightarrow> int \<Rightarrow> int \<Rightarrow> string \<Rightarrow> 'x chat_manager \<Rightarrow> 'x chat_manager" where
  "automode_loop chat exit_phrase max_iterations iteration_count error_count user_input st =
     (if automode st \<and> iteration_count < max_iterations then
        (case chat user_input (iteration_count + 1) max_iterations st of
           (Raised e, st1) \<Rightarrow>
             (let st2 = display (Error (''Error in automode iteration: '' @ str_exn e)) st1 in
              if error_count + 1 \<ge> max_errors then
                (display (Error (''Exiting automode due to '' @ str_int max_errors @
                    '' consecutive errors.'')) st2)\<lparr>automode := False\<rparr>
              else
                automode_loop chat exit_phrase max_iterations iteration_count (error_count + 1)
                  user_input st2)
         | (KeyboardInterrupt, st1) \<Rightarrow> interrupted st1
         | (Returned response exit_continuation, st1) \<Rightarrow>
             (let (user_input', st2) =
                    (if exit_continuation \<or> sublist exit_phrase response then
                       (user_input, (display (Success ''Automode completed.'') st1)\<lparr>automode := False\<rparr>)
                     else
                       (continue_prompt,
                        display (Info (''Continuation iteration '' @ str_int (iteration_count + 1) @
                          '' completed. Press Ctrl+C to exit automode. '')) st1));
                  st3 = (if iteration_count + 1 \<ge> max_iterations then
                           (display (Error ''Max iterations reached. Exiting automode.'') st2)
                             \<lparr>automode := False\<rparr>
                         else st2)
              in automode_loop chat exit_phrase max_iterations (iteration_count + 1) 0
                   user_input' st3))
      else st)"
  by pat_completeness auto
termination
  by (relation "measures
        [\<lambda>(chat, exit_phrase, max_iterations, iteration_count, error_count, user_input, st).
           nat (max_iterations - iteration_count),
         \<lambda>(chat, exit_phrase, max_iterations, iteration_count, error_count, user_input, st).
           nat (max_errors - error_count)]")
     (auto simp: max_errors_def)

declare automode_loop.simps [simp del]

text \<open>
  \<^verbatim>\<open>handle_automode\<close> from the point where \<^verbatim>\<open>max_iterations\<close> has been read from the
  command and the goal has been typed in (\<open>goal\<close>), to its last line.
\<close>

definition handle_automode ::
  "'x orchestrator \<Rightarrow> string \<Rightarrow> int \<Rightarrow> string \<Rightarrow> 'x chat_manager \<Rightarrow> 'x chat_manager" where
  "handle_automode chat exit_phrase max_iterations goal st =
     (let st1 = st\<lparr>automode := True\<rparr>;
          st2 = display (Info (''Entering automode with '' @ str_int max_iterations @
                  '' iterations. Please provide the goal of the automode.'')) st1;
          st3 = display (Info ''Press Ctrl+C at any time to exit the automode loop.'') st2;
          st4 = automode_loop chat exit_phrase max_iterations 0 0 goal st3
      in display (Success ''Exited automode. Returning to regular chat.'') st4)"

text \<open>
  A stub in the place of the orchestrator: every call raises \<open>e\<close>. It counts its calls in
  the outside state.
\<close>

definition failing_orchestrator :: "exn \<Rightarrow> nat orchestrator" where
  "failing_orchestrator e user_input current_iteration max_iterations st =
     (Raised e, st\<lparr>ext := Suc (ext st)\<rparr>)"

section \<open>Construction\<close>

text \<open>
  \<^verbatim>\<open>ChatManager.__init__\<close>: fresh objects, \<^verbatim>\<open>automode = False\<close>; the file system and the
  outside are what they are when the program starts.
\<close>

definition ChatManager_init :: "filesystem \<Rightarrow> 'x \<Rightarrow> 'x chat_manager" where
  "ChatManager_init filesystem outside =
     \<lparr>conversation = Conversation_init, token_tracker = TokenTracker_init,
      file_ops = FileOperations_init, claude_client = ClaudeClient_init, automode = False,
      console = [], llm_calls = 0, tool_log = [], fs = filesystem, ext = outside\<rparr>"

text \<open>
  Surroundings for running the model on an example: a backend given as a function, tool
  handlers that return an empty result and touch nothing, a working directory.
\<close>

definition quiet_handler :: "json \<Rightarrow> 'x world \<Rightarrow> (exn + json) \<times> 'x world" where
  "quiet_handler arg w = (Inr (JObj []), w)"

definition example_env :: "(nat \<Rightarrow> message list \<Rightarrow> string \<Rightarrow> exn + response) \<Rightarrow> 'x env" where
  "example_env backend =
     \<lparr>cwd = ''/home/user'', CONTINUATION_EXIT_PHRASE = ''AUTOMODE_COMPLETE'', api = backend,
      dumps = (\<lambda>j. ''{}''), dumps_indent = (\<lambda>j. ''{}''), apply_edits = (\<lambda>text edits. text @ edits),
      encode_image_to_base64 = (\<lambda>path. None),
      create_files = quiet_handler, tavily_search = quiet_handler,
      create_folders = quiet_handler, execute_code = quiet_handler,
      stop_process = quiet_handler, read_multiple_files = quiet_handler,
      list_files = quiet_handler, code_executor_effect = (\<lambda>name x. x)\<rparr>"

definition example_fs :: filesystem where
  "example_fs =
     \<lparr>stored = [''/home/user/secret.txt'' \<mapsto> ''top secret'',
                 ''/home/user/_generations/app.py'' \<mapsto> ''print(1)''],
      writable = (\<lambda>p. True), accessed = []\<rparr>"

chapter \<open>Properties\<close>

section \<open>Properties of the alternation repair\<close>

lemma ear_loop_append:
  "ear_loop (acc @ acc') lr ms = acc @ ear_loop acc' lr ms"
  by (induction ms arbitrary: acc' lr) auto

lemma ear_loop_acc: "ear_loop acc lr ms = acc @ ear_loop [] lr ms"
  using ear_loop_append [of acc "[]" lr ms] by simp

lemma ear_Cons:
  "ear_loop [] lr (m # ms) =
     (if Some (role m) \<noteq> lr then m # ear_loop [] (Some (role m)) ms
      else if role m = ''user'' then placeholder # m # ear_loop [] (Some ''user'') ms
      else ear_loop [] lr ms)"
proof -
  have one: "ear_loop [m] r ms = m # ear_loop [] r ms" for r
    using ear_loop_acc [of "[m]"] by simp
  have two: "ear_loop [placeholder, m] r ms = placeholder # m # ear_loop [] r ms" for r
    using ear_loop_acc [of "[placeholder, m]"] by simp
  show ?thesis by (simp add: one two)
qed

lemma ear_Nil: "ear_loop [] lr [] = []"
  by simp

declare ear_loop.simps [simp del]

lemma inserted_only_length: "inserted_only xs ys \<Longrightarrow> length xs \<le> length ys"
  by (induction rule: inserted_only.induct) auto

lemma inserted_only_collapse:
  "inserted_only (collapse_repeats lr ms) (ear_loop [] lr ms)"
proof (induction ms arbitrary: lr)
  case Nil
  show ?case by (simp add: ear_Nil io_Nil)
next
  case (Cons m ms)
  show ?case
  proof (cases "Some (role m) \<noteq> lr")
    case True
    then show ?thesis
      using Cons [of "Some (role m)"] by (auto simp: ear_Cons intro: io_keep)
  next
    case same: False
    show ?thesis
    proof (cases "role m = ''user''")
      case True
      with same show ?thesis
        using Cons [of "Some ''user''"] by (auto simp: ear_Cons intro: io_keep io_ins)
    next
      case False
      with same show ?thesis
        using Cons [of lr] by (auto simp: ear_Cons)
    qed
  qed
qed

lemma user_kept:
  "filter (\<lambda>m. role m = ''user'') (ear_loop [] lr ms) = filter (\<lambda>m. role m = ''user'') ms"
  by (induction ms arbitrary: lr) (auto simp: ear_Nil ear_Cons placeholder_def)

text \<open>The output alternates, also when read after a message of role \<open>last_role\<close>.\<close>

fun after_role :: "string option \<Rightarrow> string list" where
  "after_role None = []"
| "after_role (Some r) = [r]"

lemma alternates_Cons: "alternates (r # rs) = (alternates rs \<and> (rs = [] \<or> hd rs \<noteq> r))"
  by (cases rs) auto

lemma ear_alternates:
  "alternates (after_role lr @ map role (ear_loop [] lr ms))"
proof (induction ms arbitrary: lr)
  case Nil
  show ?case by (cases lr) (simp_all add: ear_Nil)
next
  case (Cons m ms)
  show ?case
  proof (cases "Some (role m) \<noteq> lr")
    case True
    then show ?thesis
      using Cons [of "Some (role m)"] by (cases lr) (auto simp: ear_Cons)
  next
    case same: False
    show ?thesis
    proof (cases "role m = ''user''")
      case True
      with same show ?thesis
        using Cons [of "Some ''user''"] by (auto simp: ear_Cons placeholder_def)
    next
      case False
      with same show ?thesis
        using Cons [of lr] by (auto simp: ear_Cons)
    qed
  qed
qed

lemma ear_fixed:
  "alternates (after_role lr @ map role ms) \<Longrightarrow> ear_loop [] lr ms = ms"
proof (induction ms arbitrary: lr)
  case Nil
  show ?case by (simp add: ear_Nil)
next
  case (Cons m ms)
  have differ: "Some (role m) \<noteq> lr"
    using Cons.prems by (cases lr) auto
  have "alternates (after_role (Some (role m)) @ map role ms)"
    using Cons.prems by (cases lr) (auto simp: alternates_Cons)
  then have "ear_loop [] (Some (role m)) ms = ms"
    by (rule Cons.IH)
  with differ show ?case by (simp add: ear_Cons)
qed

lemma ear_roles:
  "set (map role (ear_loop [] lr ms)) \<subseteq> insert ''assistant'' (set (map role ms))"
  by (induction ms arbitrary: lr) (auto simp: ear_Nil ear_Cons placeholder_def)

text \<open>
  Claim C5, as stated: the output of \<^verbatim>\<open>ensure_alternating_roles\<close> contains every input
  message in its original order, with placeholder insertions only and no deletion. The
  code omits an assistant message that follows another assistant message (its last
  branch, commented "we can safely ignore the duplicates"): of two real assistant
  messages in a row the second one is gone from the output.
\<close>

theorem ensure_alternating_roles_deletes_counterexample:
  "\<not> inserted_only
      [\<lparr>role = ''assistant'', content = JStr ''first answer''\<rparr>,
       \<lparr>role = ''assistant'', content = JStr ''second answer''\<rparr>]
      (ensure_alternating_roles
        [\<lparr>role = ''assistant'', content = JStr ''first answer''\<rparr>,
         \<lparr>role = ''assistant'', content = JStr ''second answer''\<rparr>])"
proof
  assume "inserted_only
      [\<lparr>role = ''assistant'', content = JStr ''first answer''\<rparr>,
       \<lparr>role = ''assistant'', content = JStr ''second answer''\<rparr>]
      (ensure_alternating_roles
        [\<lparr>role = ''assistant'', content = JStr ''first answer''\<rparr>,
         \<lparr>role = ''assistant'', content = JStr ''second answer''\<rparr>])"
  then have "length [\<lparr>role = ''assistant'', content = JStr ''first answer''\<rparr>,
       \<lparr>role = ''assistant'', content = JStr ''second answer''\<rparr>]
    \<le> length (ensure_alternating_roles
        [\<lparr>role = ''assistant'', content = JStr ''first answer''\<rparr>,
         \<lparr>role = ''assistant'', content = JStr ''second answer''\<rparr>])"
    by (rule inserted_only_length)
  then show False
    by (simp add: ensure_alternating_roles_def ear_Cons ear_Nil)
qed

text \<open>
  Claim C5, amended: the output of \<^verbatim>\<open>ensure_alternating_roles\<close> contains, in their
  original order, all input messages but those that are not user messages and repeat the
  role of the input message right before them (\<open>collapse_repeats\<close>); everything else in
  the output is a "Continuing the conversation..." placeholder; and the user messages
  of the output are exactly the user messages of the input, in order: no user message
  is ever deleted.
\<close>

theorem ensure_alternating_roles_keeps:
  "inserted_only (collapse_repeats None messages) (ensure_alternating_roles messages) \<and>
   filter (\<lambda>m. role m = ''user'') (ensure_alternating_roles messages)
     = filter (\<lambda>m. role m = ''user'') messages"
  unfolding ensure_alternating_roles_def
  using inserted_only_collapse [of None messages] user_kept [of None messages] by simp

theorem ensure_alternating_roles_keeps_witness:
  "inserted_only
     [\<lparr>role = ''user'', content = JStr ''a''\<rparr>, \<lparr>role = ''user'', content = JStr ''b''\<rparr>,
      \<lparr>role = ''assistant'', content = JStr ''c''\<rparr>]
     [\<lparr>role = ''user'', content = JStr ''a''\<rparr>, placeholder,
      \<lparr>role = ''user'', content = JStr ''b''\<rparr>, \<lparr>role = ''assistant'', content = JStr ''c''\<rparr>] \<and>
   filter (\<lambda>m. role m = ''user'')
     [\<lparr>role = ''user'', content = JStr ''a''\<rparr>, placeholder,
      \<lparr>role = ''user'', content = JStr ''b''\<rparr>, \<lparr>role = ''assistant'', content = JStr ''c''\<rparr>]
   = [\<lparr>role = ''user'', content = JStr ''a''\<rparr>, \<lparr>role = ''user'', content = JStr ''b''\<rparr>]"
  using ensure_alternating_roles_keeps
    [of "[\<lparr>role = ''user'', content = JStr ''a''\<rparr>, \<lparr>role = ''user'', content = JStr ''b''\<rparr>,
          \<lparr>role = ''assistant'', content = JStr ''c''\<rparr>,
          \<lparr>role = ''assistant'', content = JStr ''d''\<rparr>]"]
  by (simp add: ensure_alternating_roles_def ear_Cons ear_Nil)

text \<open>
  Claim C6: for every message list, no two neighbours of the output of
  \<^verbatim>\<open>ensure_alternating_roles\<close> have the same role, every role of the output is a role of
  the input or \<^verbatim>\<open>assistant\<close> (so a list of user and assistant messages comes out strictly
  alternating between the two), and repairing the output again gives the same list.
\<close>

theorem ensure_alternating_roles_alternates_idempotent:
  "alternates (map role (ensure_alternating_roles messages)) \<and>
   set (map role (ensure_alternating_roles messages))
     \<subseteq> insert ''assistant'' (set (map role messages)) \<and>
   ensure_alternating_roles (ensure_alternating_roles messages)
     = ensure_alternating_roles messages"
proof -
  have alt: "alternates (map role (ear_loop [] None messages))"
    using ear_alternates [of None messages] by simp
  then have "ear_loop [] None (ear_loop [] None messages) = ear_loop [] None messages"
    using ear_fixed [of None "ear_loop [] None messages"] by simp
  with alt ear_roles [of None messages] show ?thesis
    by (simp add: ensure_alternating_roles_def)
qed

theorem ensure_alternating_roles_alternates_idempotent_witness:
  "ensure_alternating_roles
     [\<lparr>role = ''user'', content = JStr ''a''\<rparr>, \<lparr>role = ''user'', content = JStr ''b''\<rparr>,
      \<lparr>role = ''assistant'', content = JStr ''c''\<rparr>, \<lparr>role = ''assistant'', content = JStr ''d''\<rparr>]
   = [\<lparr>role = ''user'', content = JStr ''a''\<rparr>, placeholder,
      \<lparr>role = ''user'', content = JStr ''b''\<rparr>, \<lparr>role = ''assistant'', content = JStr ''c''\<rparr>] \<and>
   alternates [''user'', ''assistant'', ''user'', ''assistant''] \<and>
   ensure_alternating_roles
     [\<lparr>role = ''user'', content = JStr ''a''\<rparr>, placeholder,
      \<lparr>role = ''user'', content = JStr ''b''\<rparr>, \<lparr>role = ''assistant'', content = JStr ''c''\<rparr>]
   = [\<lparr>role = ''user'', content = JStr ''a''\<rparr>, placeholder,
      \<lparr>role = ''user'', content = JStr ''b''\<rparr>, \<lparr>role = ''assistant'', content = JStr ''c''\<rparr>]"
  using ensure_alternating_roles_alternates_idempotent
    [of "[\<lparr>role = ''user'', content = JStr ''a''\<rparr>, \<lparr>role = ''user'', content = JStr ''b''\<rparr>,
          \<lparr>role = ''assistant'', content = JStr ''c''\<rparr>,
          \<lparr>role = ''assistant'', content = JStr ''d''\<rparr>]"]
  by (simp add: ensure_alternating_roles_def ear_Cons ear_Nil placeholder_def)

section \<open>Autonomous mode\<close>

lemma str_int_3: "str_int 3 = ''3''"
  by (simp add: str_int_def str_nat.simps)

lemma automode_loop_failing:
  assumes "0 < max_iterations" and "automode st"
  shows "automode_loop (failing_orchestrator e) exit_phrase max_iterations 0 0 goal st =
     st\<lparr>automode := False,
        console := console st @
          [Error (''Error in automode iteration: '' @ str_exn e),
           Error (''Error in automode iteration: '' @ str_exn e),
           Error (''Error in automode iteration: '' @ str_exn e),
           Error ''Exiting automode due to 3 consecutive errors.''],
        ext := ext st + 3\<rparr>"
  using assms
  apply (subst automode_loop.simps)
  apply (subst automode_loop.simps)
  apply (subst automode_loop.simps)
  apply (simp add: failing_orchestrator_def display_def max_errors_def str_int_3)
  done

text \<open>
  Claim C7: in autonomous mode, with an orchestrator that raises on every call, the
  controller calls it three times, displays the three errors and then "Exiting automode
  due to 3 consecutive errors.", leaves the loop with \<^verbatim>\<open>automode = False\<close> and never
  displays "Max iterations reached. Exiting automode."; this for every positive
  \<^verbatim>\<open>max_iterations\<close>, 3 among them. The stub counts its calls in \<open>ext\<close>: three, no
  fourth call after the third failure.
\<close>

theorem automode_error_budget:
  assumes "0 < max_iterations"
  shows "handle_automode (failing_orchestrator e) exit_phrase max_iterations goal st =
     st\<lparr>automode := False,
        console := console st @
          [Info (''Entering automode with '' @ str_int max_iterations @
             '' iterations. Please provide the goal of the automode.''),
           Info ''Press Ctrl+C at any time to exit the automode loop.'',
           Error (''Error in automode iteration: '' @ str_exn e),
           Error (''Error in automode iteration: '' @ str_exn e),
           Error (''Error in automode iteration: '' @ str_exn e),
           Error ''Exiting automode due to 3 consecutive errors.'',
           Success ''Exited automode. Returning to regular chat.''],
        ext := ext st + 3\<rparr> \<and>
     Error ''Max iterations reached. Exiting automode.''
       \<notin> set (drop (length (console st))
             (console (handle_automode (failing_orchestrator e) exit_phrase max_iterations goal st)))"
proof -
  let ?st3 = "display (Info ''Press Ctrl+C at any time to exit the automode loop.'')
     (display (Info (''Entering automode with '' @ str_int max_iterations @
             '' iterations. Please provide the goal of the automode.'')) (st\<lparr>automode := True\<rparr>))"
  have "automode ?st3" by (simp add: display_def)
  from automode_loop_failing [OF assms this]
  have eq: "handle_automode (failing_orchestrator e) exit_phrase max_iterations goal st =
     st\<lparr>automode := False,
        console := console st @
          [Info (''Entering automode with '' @ str_int max_iterations @
             '' iterations. Please provide the goal of the automode.''),
           Info ''Press Ctrl+C at any time to exit the automode loop.'',
           Error (''Error in automode iteration: '' @ str_exn e),
           Error (''Error in automode iteration: '' @ str_exn e),
           Error (''Error in automode iteration: '' @ str_exn e),
           Error ''Exiting automode due to 3 consecutive errors.'',
           Success ''Exited automode. Returning to regular chat.''],
        ext := ext st + 3\<rparr>"
    by (simp add: handle_automode_def display_def)
  show ?thesis
    by (simp only: eq) simp
qed

theorem automode_error_budget_witness:
  "(0::int) < 3 \<and>
   handle_automode (failing_orchestrator (Exception ''overloaded'')) ''AUTOMODE_COMPLETE'' 3
       ''write the tests'' (ChatManager_init example_fs 0) =
     (ChatManager_init example_fs 0)\<lparr>automode := False,
        console :=
          [Info ''Entering automode with 3 iterations. Please provide the goal of the automode.'',
           Info ''Press Ctrl+C at any time to exit the automode loop.'',
           Error ''Error in automode iteration: overloaded'',
           Error ''Error in automode iteration: overloaded'',
           Error ''Error in automode iteration: overloaded'',
           Error ''Exiting automode due to 3 consecutive errors.'',
           Success ''Exited automode. Returning to regular chat.''],
        ext := 3\<rparr>"
proof -
  have pos: "(0::int) < 3" by simp
  show ?thesis
    using pos automode_error_budget [OF pos, of "Exception ''overloaded''" "''AUTOMODE_COMPLETE''"
        "''write the tests''" "ChatManager_init example_fs 0"]
    by (simp add: str_int_3 ChatManager_init_def)
qed

section \<open>Reset\<close>

text \<open>
  Claim C9 says that \<^verbatim>\<open>reset_conversation\<close> completes and clears the history, the token
  ledger, the file-content cache and the code-editor memory. The code calls
  \<^verbatim>\<open>self.token_tracker.reset()\<close>, and \<^verbatim>\<open>TokenTracker\<close> has no method of that name (its
  reset is \<^verbatim>\<open>reset_token_usage\<close>): from every state the call raises AttributeError after
  the conversation has been cleared, and the token ledger, the file-content cache and the
  code-editor memory are left as they were.
\<close>

theorem reset_conversation_raises:
  "reset_conversation env st =
     (Inl (AttributeError (quote @ ''TokenTracker'' @ quote @ '' object has no attribute '' @
        quote @ ''reset'' @ quote)),
      st\<lparr>conversation := Conversation_reset (conversation st)\<rparr>) \<and>
   token_tracker (snd (reset_conversation env st)) = token_tracker st \<and>
   file_ops (snd (reset_conversation env st)) = file_ops st \<and>
   claude_client (snd (reset_conversation env st)) = claude_client st"
  by (simp add: reset_conversation_def call_method_def TokenTracker_methods_def)

section \<open>Retry decision\<close>

lemma decide_retry_unbound:
  "errors_present_loop results = Inr True \<Longrightarrow>
   decide_retry chat_manager_re commentary (JList results)
     = Inl (NameError (''name '' @ quote @ ''re'' @ quote @ '' is not defined''))"
  by (simp add: decide_retry_def retry_triggered_def chat_manager_re_def)

lemma decide_retry_phrase_unbound:
  "errors_present_loop results = Inr False \<Longrightarrow>
   list_ex (\<lambda>phrase. sublist phrase (lower commentary)) retry_phrases \<Longrightarrow>
   decide_retry chat_manager_re commentary (JList results)
     = Inl (NameError (''name '' @ quote @ ''re'' @ quote @ '' is not defined''))"
  by (simp add: decide_retry_def retry_triggered_def chat_manager_re_def)

lemma decide_retry_bound:
  "errors_present_loop results = Inr True \<Longrightarrow>
   decide_retry (Some findall) commentary (JList results) = Inr decision \<Longrightarrow> retry decision"
  by (auto simp: decide_retry_def retry_triggered_def Let_def split: sum.splits if_splits)

text \<open>
  Claim C2 says that \<^verbatim>\<open>decide_retry\<close> returns with \<^verbatim>\<open>retry = true\<close> whenever an edit
  result carries \<^verbatim>\<open>is_error = true\<close>. In the code the branch that sets
  \<^verbatim>\<open>retry = True\<close> goes on to call \<^verbatim>\<open>re.findall\<close>, and chat\_manager.py never imports
  \<^verbatim>\<open>re\<close>: on a result list with an error entry the call raises NameError and returns
  no decision (\<open>decide_retry_unbound\<close> for every such list; with the name bound the
  decision would be to retry, \<open>decide_retry_bound\<close>).
\<close>

theorem decide_retry_name_error:
  "decide_retry chat_manager_re ''The edit of app.py failed.''
     (JList [JObj [(''path'', JStr ''app.py''), (''status'', JStr ''error''),
                   (''message'', JStr ''disk full''), (''is_error'', JBool True)]])
   = Inl (NameError (''name '' @ quote @ ''re'' @ quote @ '' is not defined''))"
  by (simp add: decide_retry_def retry_triggered_def chat_manager_re_def)

section \<open>History filter\<close>

lemma keep_tool_result_block: "keep_block (tool_result_block tool_use_id text is_error) = Inr True"
  by (simp add: keep_block_def tool_result_block_def context_markers_def)

lemma keep_block_output:
  "list_ex (\<lambda>marker. sublist marker output) context_markers \<Longrightarrow>
   keep_block (JObj [(''type'', JStr ''tool_result''), (''output'', JStr output)]) = Inr False"
  by (auto simp: keep_block_def context_markers_def split: bool.splits)

text \<open>
  Claim C3 says that \<^verbatim>\<open>filter_history\<close> removes a tool-result block whose text, as the
  orchestrator stores it, contains one of the three markers. The filter looks for the
  markers in the field \<^verbatim>\<open>output\<close> of the block, and the orchestrator stores the text
  under \<^verbatim>\<open>content\<close>: a tool-result message built by the orchestrator with the text
  "File contents updated in system prompt" comes back with its block in place
  (\<open>keep_tool_result_block\<close>: every block the orchestrator builds is kept, whatever its
  text; \<open>keep_block_output\<close>: a block with a marker in an \<^verbatim>\<open>output\<close> field is removed).
\<close>

theorem filter_history_keeps_marked_tool_result:
  "filter_history
     \<lparr>history = [tool_result_message env tu (JStr ''File contents updated in system prompt'')],
      conversation_file_contents = cache\<rparr>
   = Inr [\<lparr>role = ''user'',
           content = JList [tool_result_block (use_id tu)
             ''File contents updated in system prompt'' (JBool False)]\<rparr>]"
  by (simp add: filter_history_def tool_result_message_def keep_tool_result_block)

lemma filter_history_plain:
  "filter_history_loop acc [\<lparr>role = r, content = JStr text\<rparr>] = Inr (acc @ [\<lparr>role = r, content = JStr text\<rparr>])"
  by simp

section \<open>Edit sandbox\<close>

lemma generations_dir_example: "path_join ''/home/user'' ''_generations'' = ''/home/user/_generations''"
  by (simp add: path_join_def)

lemma full_path_example:
  "path_join ''/home/user/_generations'' ''../secret.txt'' = ''/home/user/_generations/../secret.txt''"
  by (simp add: path_join_def)

lemma full_path_example2:
  "path_join ''/home/user/_generations'' ''app.py'' = ''/home/user/_generations/app.py''"
  by (simp add: path_join_def)

lemma resolve_example:
  "resolve ''/home/user/_generations/../secret.txt'' = ''/home/user/secret.txt''"
  by (simp add: resolve_def)

lemma resolve_example2:
  "resolve ''/home/user/_generations/app.py'' = ''/home/user/_generations/app.py''"
  by (simp add: resolve_def)

text \<open>
  Claim C1 says that a file whose path resolves outside the sandbox root, also through
  \<^verbatim>\<open>..\<close> segments, is rejected before any read or write. The check of the code is
  \<^verbatim>\<open>full_path.startswith(generations_dir)\<close> on the joined, unresolved path, which
  \<^verbatim>\<open>../secret.txt\<close> passes: the file /home/user/secret.txt, outside
  /home/user/\_generations, is opened for reading. With the \<^verbatim>\<open>FileOperations\<close> object as
  the program constructs it the edit then fails on the missing \<^verbatim>\<open>claude_client\<close>
  attribute; with a client set the file outside the sandbox is overwritten and reported
  as a success (\<open>edit_writes_outside_sandbox\<close>). A path that fails the prefix check
  is rejected with no file access (\<open>edit_try_rejected\<close>), and the sibling is processed.
\<close>

theorem edit_reads_outside_sandbox:
  "edit_and_apply_multiple ''/home/user'' ae
     [JObj [(''path'', JStr ''../secret.txt''), (''instructions'', JStr ''add a line'')],
      JObj [(''path'', JStr ''app.py''), (''instructions'', JStr ''add a line'')]]
     (JStr ''context'') (FileOperations_init, example_fs)
   = (Inr [error_entry (JStr ''../secret.txt'')
             (AttributeError (quote @ ''FileOperations'' @ quote @
                '' object has no attribute '' @ quote @ ''claude_client'' @ quote)),
           error_entry (JStr ''app.py'')
             (AttributeError (quote @ ''FileOperations'' @ quote @
                '' object has no attribute '' @ quote @ ''claude_client'' @ quote))],
      FileOperations_init,
      example_fs\<lparr>accessed := [Read ''/home/user/secret.txt'',
                               Read ''/home/user/_generations/app.py'']\<rparr>) \<and>
   \<not> prefix (path_join ''/home/user'' ''_generations'')
       (resolve (path_join (path_join ''/home/user'' ''_generations'') ''../secret.txt''))"
  by (simp add: edit_and_apply_multiple_def edit_try_def generations_dir_example full_path_example full_path_example2
      resolve_example resolve_example2 fs_read_def FileOperations_init_def example_fs_def
      Let_def)

lemma edit_try_rejected:
  assumes "py_getitem file ''path'' = Inr (JStr p)"
    and "py_getitem file ''instructions'' = Inr i"
    and "\<not> prefix (path_join c ''_generations'') (path_join (path_join c ''_generations'') p)"
  shows "edit_try c ae pc file (fo, fsys) =
    (Inl (ValueError (''File '' @ p @ '' is not within the _generations directory'')), fo, fsys)"
  using assms by (simp add: edit_try_def Let_def)

lemma edit_writes_outside_sandbox:
  "edit_and_apply_multiple ''/home/user'' (\<lambda>text edits. text @ edits)
     [JObj [(''path'', JStr ''../secret.txt''), (''instructions'', JStr ''add a line'')]]
     (JStr ''context'')
     (FileOperations_init\<lparr>claude_client_attr := Some (\<lambda>p text i ctx. Inr ''!'')\<rparr>, example_fs)
   = (Inr [success_entry ''../secret.txt''],
      \<lparr>file_contents = [''/home/user/_generations/../secret.txt'' \<mapsto> JStr ''top secret!''],
       claude_client_attr = Some (\<lambda>p text i ctx. Inr ''!'')\<rparr>,
      example_fs\<lparr>stored := (stored example_fs)(''/home/user/secret.txt'' \<mapsto> ''top secret!''),
                 accessed := [Read ''/home/user/secret.txt'', Write ''/home/user/secret.txt'']\<rparr>)"
  by (simp add: edit_and_apply_multiple_def edit_try_def generations_dir_example full_path_example
      resolve_example fs_read_def fs_write_def FileOperations_init_def example_fs_def Let_def)

section \<open>Edit results and the retry decision\<close>

lemma edit_try_entry:
  "edit_try c ae pc file st = (Inr entry, st') \<Longrightarrow> is_edit_result entry"
  by (auto simp: edit_try_def Let_def success_entry_def
      split: sum.splits json.splits if_splits prod.splits option.splits)

lemma error_entry_shape: "is_edit_result (error_entry p e)"
  by (simp add: error_entry_def)

lemma edit_loop_shape:
  "list_all is_edit_result acc \<Longrightarrow> edit_loop c ae pc acc st files = (Inr results, st') \<Longrightarrow>
   list_all is_edit_result results"
proof (induction files arbitrary: acc st)
  case Nil
  then show ?case by simp
next
  case (Cons f fs')
  obtain r st1 where tried: "edit_try c ae pc f st = (r, st1)"
    by (cases "edit_try c ae pc f st")
  show ?case
  proof (cases r)
    case (Inr entry)
    with tried have "is_edit_result entry" by (auto dest: edit_try_entry)
    with Cons.prems(1) have "list_all is_edit_result (acc @ [entry])" by simp
    moreover from Cons.prems(2) tried Inr
    have "edit_loop c ae pc (acc @ [entry]) st1 fs' = (Inr results, st')" by simp
    ultimately show ?thesis by (rule Cons.IH)
  next
    case (Inl e)
    show ?thesis
    proof (cases "py_getitem f ''path''")
      case (Inl e')
      with Cons.prems(2) tried \<open>r = Inl e\<close> show ?thesis by simp
    next
      case (Inr path)
      from Cons.prems(1) have "list_all is_edit_result (acc @ [error_entry path e])"
        by (simp add: error_entry_shape)
      moreover from Cons.prems(2) tried \<open>r = Inl e\<close> Inr
      have "edit_loop c ae pc (acc @ [error_entry path e]) st1 fs' = (Inr results, st')"
        by simp
      ultimately show ?thesis by (rule Cons.IH)
    qed
  qed
qed

lemma is_edit_result_fields:
  "is_edit_result r \<Longrightarrow>
   \<exists>p status m. r = JObj [(''path'', p), (''status'', JStr status), (''message'', JStr m)]"
  by (erule is_edit_result.elims) auto

lemma shape_no_is_error:
  "list_all is_edit_result results \<Longrightarrow> list_all (\<lambda>r. py_in ''is_error'' r = Inr False) results"
  by (induction results) (auto dest!: is_edit_result_fields)

lemma shape_no_error:
  "list_all is_edit_result results \<Longrightarrow> errors_present_loop results = Inr False"
  by (induction results) (auto dest!: is_edit_result_fields)

text \<open>
  Claim C10: every entry of a result list that \<^verbatim>\<open>edit_and_apply_multiple\<close> returns has
  exactly the fields \<^verbatim>\<open>path\<close>, \<^verbatim>\<open>status\<close> (\<^verbatim>\<open>success\<close> or \<^verbatim>\<open>error\<close>) and
  \<^verbatim>\<open>message\<close>, and no \<^verbatim>\<open>is_error\<close> field; so on such a list the error test of
  \<^verbatim>\<open>decide_retry\<close> is false, a commentary without retry phrase gives the decision
  not to retry, and a decision to retry can only come from a phrase of the commentary
  (whatever the name \<^verbatim>\<open>re\<close> is bound to).
\<close>

theorem edit_results_never_trigger_retry:
  assumes "edit_and_apply_multiple c ae files pc st = (Inr results, st')"
  shows "list_all is_edit_result results \<and>
    list_all (\<lambda>r. py_in ''is_error'' r = Inr False) results \<and>
    errors_present_loop results = Inr False \<and>
    (\<not> list_ex (\<lambda>phrase. sublist phrase (lower commentary)) retry_phrases \<longrightarrow>
       decide_retry re commentary (JList results) = Inr \<lparr>retry = False, files_to_retry = []\<rparr>) \<and>
    (decide_retry re commentary (JList results) = Inr decision \<and> retry decision \<longrightarrow>
       list_ex (\<lambda>phrase. sublist phrase (lower commentary)) retry_phrases)"
proof -
  from assms have shape: "list_all is_edit_result results"
    unfolding edit_and_apply_multiple_def by (rule edit_loop_shape [rotated]) simp
  then have none: "errors_present_loop results = Inr False"
    by (rule shape_no_error)
  have quiet: "decide_retry re commentary (JList results) = Inr \<lparr>retry = False, files_to_retry = []\<rparr>"
    if "\<not> list_ex (\<lambda>phrase. sublist phrase (lower commentary)) retry_phrases"
    using that none by (simp add: decide_retry_def retry_triggered_def)
  have loud: "list_ex (\<lambda>phrase. sublist phrase (lower commentary)) retry_phrases"
    if "decide_retry re commentary (JList results) = Inr decision" and "retry decision"
  proof (rule ccontr)
    assume "\<not> list_ex (\<lambda>phrase. sublist phrase (lower commentary)) retry_phrases"
    from quiet [OF this] that show False by simp
  qed
  from shape none quiet loud shape_no_is_error [OF shape] show ?thesis
    by blast
qed

lemma lower_example: "lower ''Looks good.'' = ''looks good.''"
  by (simp add: lower_def lower_char_def)

lemma no_phrase_example:
  "\<not> list_ex (\<lambda>phrase. sublist phrase ''looks good.'') retry_phrases"
  by (simp add: retry_phrases_def sublist_code)

lemma full_path_example3:
  "path_join ''/home/user/_generations'' ''missing.py'' = ''/home/user/_generations/missing.py''"
  by (simp add: path_join_def)

lemma resolve_example3:
  "resolve ''/home/user/_generations/missing.py'' = ''/home/user/_generations/missing.py''"
  by (simp add: resolve_def)

lemma edit_example:
  "edit_and_apply_multiple ''/home/user'' (\<lambda>text edits. text @ edits)
     [JObj [(''path'', JStr ''app.py''), (''instructions'', JStr ''add a line'')],
      JObj [(''path'', JStr ''missing.py''), (''instructions'', JStr ''add a line'')]]
     (JStr ''context'')
     (FileOperations_init\<lparr>claude_client_attr := Some (\<lambda>p text i ctx. Inr ''!'')\<rparr>, example_fs)
   = (Inr [JObj [(''path'', JStr ''app.py''), (''status'', JStr ''success''),
                 (''message'', JStr ''File edited successfully'')],
           JObj [(''path'', JStr ''missing.py''), (''status'', JStr ''error''),
                 (''message'', JStr (''[Errno 2] No such file or directory: '' @ quote @
                    ''/home/user/_generations/missing.py'' @ quote))]],
      \<lparr>file_contents = [''/home/user/_generations/app.py'' \<mapsto> JStr ''print(1)!''],
       claude_client_attr = Some (\<lambda>p text i ctx. Inr ''!'')\<rparr>,
      example_fs\<lparr>stored := (stored example_fs)(''/home/user/_generations/app.py'' \<mapsto> ''print(1)!''),
                 accessed := [Read ''/home/user/_generations/app.py'',
                              Write ''/home/user/_generations/app.py'',
                              Read ''/home/user/_generations/missing.py'']\<rparr>)"
  by (simp add: edit_and_apply_multiple_def edit_try_def generations_dir_example
      full_path_example2 full_path_example3 resolve_example2 resolve_example3
      fs_read_def fs_write_def FileOperations_init_def example_fs_def Let_def
      success_entry_def error_entry_def)

theorem edit_results_never_trigger_retry_witness:
  "list_all is_edit_result
     [JObj [(''path'', JStr ''app.py''), (''status'', JStr ''success''),
            (''message'', JStr ''File edited successfully'')],
      JObj [(''path'', JStr ''missing.py''), (''status'', JStr ''error''),
            (''message'', JStr (''[Errno 2] No such file or directory: '' @ quote @
               ''/home/user/_generations/missing.py'' @ quote))]] \<and>
   errors_present_loop
     [JObj [(''path'', JStr ''app.py''), (''status'', JStr ''success''),
            (''message'', JStr ''File edited successfully'')],
      JObj [(''path'', JStr ''missing.py''), (''status'', JStr ''error''),
            (''message'', JStr (''[Errno 2] No such file or directory: '' @ quote @
               ''/home/user/_generations/missing.py'' @ quote))]] = Inr False \<and>
   decide_retry chat_manager_re ''Looks good.''
     (JList
       [JObj [(''path'', JStr ''app.py''), (''status'', JStr ''success''),
              (''message'', JStr ''File edited successfully'')],
        JObj [(''path'', JStr ''missing.py''), (''status'', JStr ''error''),
              (''message'', JStr (''[Errno 2] No such file or directory: '' @ quote @
                 ''/home/user/_generations/missing.py'' @ quote))]])
     = Inr \<lparr>retry = False, files_to_retry = []\<rparr>"
  using edit_results_never_trigger_retry [OF edit_example, of "''Looks good.''" chat_manager_re]
    no_phrase_example
  by (simp only: lower_example) simp

end
